theory Spec2Isabelle
  imports Complex_Main "HOL-Library.AList"
begin

section \<open>Values and exceptions\<close>

text \<open>
  The settings of the controller are whatever \<^verbatim>\<open>json.load\<close> returns and whatever a
  request body adds to it, so they are modelled as JSON values. A Python \<^verbatim>\<open>dict\<close>
  keeps insertion order and has one entry per key: it is an association list.
  A finite Python float is the real number it denotes, \<^verbatim>\<open>JFloat r\<close> is the float of
  value \<open>r\<close>, and float arithmetic rounds as IEEE 754 binary64 does. Infinities and NaN
  have no representation: the settings are taken to hold finite numbers.
\<close>

datatype json =
    JNull
  | JBool bool
  | JInt int
  | JFloat real
  | JString string
  | JArray "json list"
  | JObject "(string \<times> json) list"

datatype py_error =
    FileNotFoundError
  | JSONDecodeError
  | UnicodeDecodeError
  | ValueError
  | RecursionError
  | IsADirectoryError
  | OSError
  | KeyError string
  | TypeError
  | OverflowError
  | AttributeError
  | KeyboardInterrupt

text \<open>\<^verbatim>\<open>d[k]\<close>: a missing key raises KeyError; a value that is not a dict cannot be
  indexed by a string.\<close>

fun getitem :: "json \<Rightarrow> string \<Rightarrow> py_error + json" where
  "getitem (JObject d) k = (case map_of d k of None \<Rightarrow> Inl (KeyError k) | Some v \<Rightarrow> Inr v)"
| "getitem _ k = Inl TypeError"

text \<open>The numeric value of an operand of \<^verbatim>\<open><\<close> or \<^verbatim>\<open>>\<close> against a float: \<^verbatim>\<open>bool\<close> is a
  subclass of \<^verbatim>\<open>int\<close>; every other JSON value raises TypeError. Python compares a float
  with an int by their exact values, so no conversion takes place.\<close>

fun py_num :: "json \<Rightarrow> real option" where
  "py_num (JBool b) = Some (if b then 1 else 0)"
| "py_num (JInt n) = Some (real_of_int n)"
| "py_num (JFloat r) = Some r"
| "py_num _ = None"

definition py_gt :: "real \<Rightarrow> json \<Rightarrow> py_error + bool" where
  "py_gt x v = (case py_num v of None \<Rightarrow> Inl TypeError | Some y \<Rightarrow> Inr (x > y))"

definition py_lt :: "real \<Rightarrow> json \<Rightarrow> py_error + bool" where
  "py_lt x v = (case py_num v of None \<Rightarrow> Inl TypeError | Some y \<Rightarrow> Inr (x < y))"

subsection \<open>Float arithmetic\<close>

text \<open>Rounding to the nearest integer, a tie going to the even one.\<close>

definition round_half_even :: "real \<Rightarrow> int" where
  "round_half_even m =
     (let f = \<lfloor>m\<rfloor>
      in if m - of_int f < 1/2 then f
         else if m - of_int f > 1/2 then f + 1
         else if even f then f else f + 1)"

text \<open>The exponent of the unit in the last place of a binary64 number near \<open>x\<close>: 53
  significant bits, and the subnormal numbers share the exponent \<open>-1074\<close>.\<close>

definition ulp_exponent :: "real \<Rightarrow> int" where
  "ulp_exponent x = max \<lfloor>log 2 \<bar>x\<bar>\<rfloor> (- 1022) - 52"

text \<open>The binary64 number nearest to \<open>x\<close>, ties to even, before the check of the range.\<close>

definition float_round :: "real \<Rightarrow> real" where
  "float_round x =
     (if x = 0 then 0
      else of_int (round_half_even (x / 2 powr of_int (ulp_exponent x)))
             * 2 powr of_int (ulp_exponent x))"

text \<open>\<^verbatim>\<open>x + y\<close> and \<^verbatim>\<open>x - y\<close> on two floats. The rules add or subtract a constant of at
  most 5.0, which cannot take a binary64 number out of the range.\<close>

definition float_add :: "real \<Rightarrow> real \<Rightarrow> real" where
  "float_add x y = float_round (x + y)"

definition float_sub :: "real \<Rightarrow> real \<Rightarrow> real" where
  "float_sub x y = float_round (x - y)"

text \<open>The conversion of an int that meets a float in \<^verbatim>\<open>+\<close> or \<^verbatim>\<open>-\<close>: the int is rounded
  to a float, and OverflowError is raised when the rounded value is out of the range.\<close>

definition float_of_int :: "int \<Rightarrow> py_error + real" where
  "float_of_int n =
     (let y = float_round (of_int n)
      in if \<bar>y\<bar> \<ge> 2 ^ 1024 then Inl OverflowError else Inr y)"

text \<open>The float operand that \<^verbatim>\<open>+\<close> and \<^verbatim>\<open>-\<close> with a float make of a JSON value.\<close>

fun py_float :: "json \<Rightarrow> py_error + real" where
  "py_float (JBool b) = Inr (if b then 1 else 0)"
| "py_float (JInt n) = float_of_int n"
| "py_float (JFloat r) = Inr r"
| "py_float _ = Inl TypeError"

definition py_add :: "json \<Rightarrow> real \<Rightarrow> py_error + real" where
  "py_add v x = (case py_float v of Inl e \<Rightarrow> Inl e | Inr y \<Rightarrow> Inr (float_add y x))"

definition py_sub :: "json \<Rightarrow> real \<Rightarrow> py_error + real" where
  "py_sub v x = (case py_float v of Inl e \<Rightarrow> Inl e | Inr y \<Rightarrow> Inr (float_sub y x))"

subsection \<open>Truth values\<close>

text \<open>Truth value of an operand of \<^verbatim>\<open>and\<close>.\<close>

fun py_truthy :: "json \<Rightarrow> bool" where
  "py_truthy JNull = False"
| "py_truthy (JBool b) = b"
| "py_truthy (JInt n) = (n \<noteq> 0)"
| "py_truthy (JFloat r) = (r \<noteq> 0)"
| "py_truthy (JString s) = (s \<noteq> [])"
| "py_truthy (JArray xs) = (xs \<noteq> [])"
| "py_truthy (JObject d) = (d \<noteq> [])"

section \<open>Data classes\<close>

record SensorData =
  temperature :: real
  humidity :: real
  co2 :: real
  airflow :: real

record SystemState =
  heating :: bool
  cooling :: bool
  humidifier :: bool
  fan_speed :: int
  recuperator :: bool

text \<open>\<^verbatim>\<open>SystemState()\<close>: the field defaults of the data class.\<close>

definition SystemState_init :: SystemState where
  "SystemState_init =
     \<lparr>heating = False, cooling = False, humidifier = False, fan_speed = 0, recuperator = False\<rparr>"

record VentilationSystem =
  settings :: json
  state :: SystemState
  sensor_data :: SensorData
  running :: bool
  simulate_sensors :: bool

section \<open>The settings file\<close>

text \<open>
  The file \<^verbatim>\<open>settings.json\<close> is described by what \<^verbatim>\<open>open\<close> and \<^verbatim>\<open>json.load\<close> make of
  it. It does not exist, and \<^verbatim>\<open>open\<close> raises FileNotFoundError. Or reading it fails with
  the exception that \<^verbatim>\<open>open\<close> or \<^verbatim>\<open>json.load\<close> raise: JSONDecodeError for a text that is
  not JSON, UnicodeDecodeError for bytes that are not text, ValueError for a number of
  too many digits, RecursionError for a nesting too deep, IsADirectoryError for a
  directory. Or its text is the JSON document of a value. \<^verbatim>\<open>json.dump\<close> writes the
  document of the value it is given. Opening the file for writing fails with OSError
  when the storage cannot be written.
\<close>

datatype settings_file = Absent | Unreadable py_error | Document json

record disk =
  settings_json :: settings_file
  writable :: bool

definition default_settings :: json where
  "default_settings = JObject
     [(''target_temp'', JFloat 22.0),
      (''target_humidity'', JFloat 50.0),
      (''co2_limit'', JInt 800),
      (''min_airflow'', JFloat 30.0),
      (''recuperator_enabled'', JBool True)]"

text \<open>Only FileNotFoundError is caught; every other exception leaves the function.\<close>

definition load_settings :: "disk \<Rightarrow> py_error + json" where
  "load_settings d =
     (case settings_json d of
        Absent \<Rightarrow> Inr default_settings
      | Unreadable e \<Rightarrow> if e = FileNotFoundError then Inr default_settings else Inl e
      | Document v \<Rightarrow> Inr v)"

definition save_settings :: "VentilationSystem \<Rightarrow> disk \<Rightarrow> py_error + disk" where
  "save_settings self d =
     (if writable d then Inr (d\<lparr>settings_json := Document (settings self)\<rparr>) else Inl OSError)"

text \<open>\<^verbatim>\<open>__init__\<close>: an error of \<^verbatim>\<open>load_settings\<close> leaves the constructor.\<close>

definition init :: "disk \<Rightarrow> py_error + VentilationSystem" where
  "init d =
     (case load_settings d of
        Inl e \<Rightarrow> Inl e
      | Inr st \<Rightarrow> Inr \<lparr>settings = st, state = SystemState_init,
                       sensor_data = \<lparr>temperature = 0.0, humidity = 0.0, co2 = 0.0, airflow = 0.0\<rparr>,
                       running = True, simulate_sensors = True\<rparr>)"

section \<open>Sensors and the control rules\<close>

text \<open>The random draw of the simulated sensors is an argument.\<close>

definition read_sensors :: "SensorData \<Rightarrow> VentilationSystem \<Rightarrow> SensorData" where
  "read_sensors draw self =
     (if simulate_sensors self then draw
      else \<lparr>temperature = 20.0, humidity = 50.0, co2 = 400.0, airflow = 40.0\<rparr>)"

text \<open>Each rule reads its thresholds before it assigns, so a rule that raises has not
  changed the state. The log lines are not modelled.\<close>

definition control_heating :: "real \<Rightarrow> VentilationSystem \<Rightarrow> py_error + VentilationSystem" where
  "control_heating temp self =
     (case getitem (settings self) ''target_temp'' of
        Inl e \<Rightarrow> Inl e
      | Inr target \<Rightarrow>
          (case py_sub target 1.0 of
             Inl e \<Rightarrow> Inl e
           | Inr lo \<Rightarrow>
               if temp < lo then Inr (self\<lparr>state := (state self)\<lparr>heating := True\<rparr>\<rparr>)
               else (case py_add target 0.5 of
                       Inl e \<Rightarrow> Inl e
                     | Inr hi \<Rightarrow>
                         if temp > hi then Inr (self\<lparr>state := (state self)\<lparr>heating := False\<rparr>\<rparr>)
                         else Inr self)))"

definition control_cooling :: "real \<Rightarrow> VentilationSystem \<Rightarrow> py_error + VentilationSystem" where
  "control_cooling temp self =
     (case getitem (settings self) ''target_temp'' of
        Inl e \<Rightarrow> Inl e
      | Inr target \<Rightarrow>
          (case py_add target 3.0 of
             Inl e \<Rightarrow> Inl e
           | Inr max_temp \<Rightarrow>
               if temp > max_temp then Inr (self\<lparr>state := (state self)\<lparr>cooling := True\<rparr>\<rparr>)
               else Inr (self\<lparr>state := (state self)\<lparr>cooling := False\<rparr>\<rparr>)))"

definition control_humidifier :: "real \<Rightarrow> VentilationSystem \<Rightarrow> py_error + VentilationSystem" where
  "control_humidifier hum self =
     (case getitem (settings self) ''target_humidity'' of
        Inl e \<Rightarrow> Inl e
      | Inr target \<Rightarrow>
          (case py_sub target 5.0 of
             Inl e \<Rightarrow> Inl e
           | Inr lo \<Rightarrow>
               if hum < lo then Inr (self\<lparr>state := (state self)\<lparr>humidifier := True\<rparr>\<rparr>)
               else (case py_add target 3.0 of
                       Inl e \<Rightarrow> Inl e
                     | Inr hi \<Rightarrow>
                         if hum > hi then Inr (self\<lparr>state := (state self)\<lparr>humidifier := False\<rparr>\<rparr>)
                         else Inr self)))"

text \<open>\<^verbatim>\<open>or\<close> evaluates its second operand only when the first is false.\<close>

definition control_fan :: "real \<Rightarrow> real \<Rightarrow> VentilationSystem \<Rightarrow> py_error + VentilationSystem" where
  "control_fan c a self =
     (case getitem (settings self) ''co2_limit'' of
        Inl e \<Rightarrow> Inl e
      | Inr co2_limit \<Rightarrow>
          (case getitem (settings self) ''min_airflow'' of
             Inl e \<Rightarrow> Inl e
           | Inr min_airflow \<Rightarrow>
               (case py_gt c co2_limit of
                  Inl e \<Rightarrow> Inl e
                | Inr high_co2 \<Rightarrow>
                    if high_co2 then Inr (self\<lparr>state := (state self)\<lparr>fan_speed := 100\<rparr>\<rparr>)
                    else (case py_lt a min_airflow of
                            Inl e \<Rightarrow> Inl e
                          | Inr low_airflow \<Rightarrow>
                              if low_airflow
                              then Inr (self\<lparr>state := (state self)\<lparr>fan_speed := 100\<rparr>\<rparr>)
                              else Inr (self\<lparr>state := (state self)\<lparr>fan_speed := 50\<rparr>\<rparr>)))))"

text \<open>\<^verbatim>\<open>and\<close> evaluates its second operand only when the first is true; the second
  operand compares two floats and cannot raise.\<close>

definition control_recuperator :: "real \<Rightarrow> VentilationSystem \<Rightarrow> py_error + VentilationSystem" where
  "control_recuperator temp self =
     (case getitem (settings self) ''recuperator_enabled'' of
        Inl e \<Rightarrow> Inl e
      | Inr enabled \<Rightarrow>
          if py_truthy enabled \<and> temp > 5.0
          then Inr (self\<lparr>state := (state self)\<lparr>recuperator := True\<rparr>\<rparr>)
          else Inr (self\<lparr>state := (state self)\<lparr>recuperator := False\<rparr>\<rparr>))"

text \<open>One cycle. The result is the exception that left the cycle, if any, and the
  system as it is at that point: the rules before the failing one have taken effect.\<close>

definition update_system :: "SensorData \<Rightarrow> VentilationSystem \<Rightarrow> py_error option \<times> VentilationSystem" where
  "update_system draw self =
     (let s0 = self\<lparr>sensor_data := read_sensors draw self\<rparr>;
          temp = temperature (sensor_data s0);
          hum = humidity (sensor_data s0);
          c = co2 (sensor_data s0);
          a = airflow (sensor_data s0)
      in case control_heating temp s0 of
           Inl e \<Rightarrow> (Some e, s0)
         | Inr s1 \<Rightarrow>
        (case control_cooling temp s1 of
           Inl e \<Rightarrow> (Some e, s1)
         | Inr s2 \<Rightarrow>
        (case control_humidifier hum s2 of
           Inl e \<Rightarrow> (Some e, s2)
         | Inr s3 \<Rightarrow>
        (case control_fan c a s3 of
           Inl e \<Rightarrow> (Some e, s3)
         | Inr s4 \<Rightarrow>
        (case control_recuperator temp s4 of
           Inl e \<Rightarrow> (Some e, s4)
         | Inr s5 \<Rightarrow> (None, s5))))))"

section \<open>The main loop\<close>

definition cleanup :: "VentilationSystem \<Rightarrow> VentilationSystem" where
  "cleanup self = self\<lparr>state := SystemState_init\<rparr>"

text \<open>
  The \<^verbatim>\<open>while\<close> loop of \<^verbatim>\<open>run\<close>. The list holds the sensor draws of the cycles that
  start before the interrupt of the user arrives; the interrupt then arrives in the
  sleep that follows the last of them. The loop ends with the exception that left it,
  or with none when \<^verbatim>\<open>self.running\<close> is false at the loop head.
\<close>

fun run_loop :: "SensorData list \<Rightarrow> VentilationSystem \<Rightarrow> py_error option \<times> VentilationSystem" where
  "run_loop draws self =
     (if \<not> running self then (None, self)
      else (case draws of
              [] \<Rightarrow> (Some KeyboardInterrupt, self)
            | draw # rest \<Rightarrow>
                (case update_system draw self of
                   (Some e, self') \<Rightarrow> (Some e, self')
                 | (None, self') \<Rightarrow> run_loop rest self')))"

text \<open>\<^verbatim>\<open>try ... except KeyboardInterrupt ... finally\<close>: the interrupt is caught, any other
  exception leaves \<^verbatim>\<open>run\<close> after the cleanup. The thread of the web interface is not
  modelled.\<close>

definition run :: "SensorData list \<Rightarrow> VentilationSystem \<Rightarrow> py_error option \<times> VentilationSystem" where
  "run draws self =
     (case run_loop draws self of
        (exc, self') \<Rightarrow>
          ((case exc of Some KeyboardInterrupt \<Rightarrow> None | _ \<Rightarrow> exc), cleanup self'))"

section \<open>The settings endpoint\<close>

text \<open>\<^verbatim>\<open>dict.update\<close> with a mapping: a key already present keeps its place and takes the
  new value, a new key is appended. A value that is not a dict has no \<^verbatim>\<open>update\<close>.\<close>

definition dict_merge :: "(string \<times> json) list \<Rightarrow> (string \<times> json) list \<Rightarrow> (string \<times> json) list" where
  "dict_merge d data = fold (\<lambda>(k, v). AList.update k v) data d"

fun dict_update :: "json \<Rightarrow> (string \<times> json) list \<Rightarrow> py_error + json" where
  "dict_update (JObject d) data = Inr (JObject (dict_merge d data))"
| "dict_update _ data = Inl AttributeError"

text \<open>The handler of \<^verbatim>\<open>POST /settings\<close>, for a request whose body is a JSON object.
  The settings are updated before they are saved, so a failing save leaves the update
  in memory. The result is the response or the exception, the system and the disk.\<close>

definition update_settings ::
  "(string \<times> json) list \<Rightarrow> VentilationSystem \<Rightarrow> disk \<Rightarrow> (py_error + json) \<times> VentilationSystem \<times> disk" where
  "update_settings data self d =
     (case dict_update (settings self) data of
        Inl e \<Rightarrow> (Inl e, self, d)
      | Inr st \<Rightarrow>
          (let self' = self\<lparr>settings := st\<rparr>
           in case save_settings self' d of
                Inl e \<Rightarrow> (Inl e, self', d)
              | Inr d' \<Rightarrow> (Inr (JObject [(''status'', JString ''ok'')]), self', d')))"

section \<open>Configurations of the data model\<close>

text \<open>A configuration is a dict that holds the five fields, the four thresholds as
  numbers and the recuperator flag as a bool. The two targets enter float arithmetic,
  so as ints they must be in the range of a float.\<close>

definition float_at :: "json \<Rightarrow> string \<Rightarrow> bool" where
  "float_at st k =
     (case getitem st k of
        Inl e \<Rightarrow> False
      | Inr v \<Rightarrow> (case py_float v of Inl e \<Rightarrow> False | Inr x \<Rightarrow> True))"

definition number_at :: "json \<Rightarrow> string \<Rightarrow> bool" where
  "number_at st k = (case getitem st k of Inl e \<Rightarrow> False | Inr v \<Rightarrow> py_num v \<noteq> None)"

definition flag_at :: "json \<Rightarrow> string \<Rightarrow> bool" where
  "flag_at st k = (case getitem st k of Inr (JBool b) \<Rightarrow> True | _ \<Rightarrow> False)"

definition valid_settings :: "json \<Rightarrow> bool" where
  "valid_settings st \<longleftrightarrow>
     float_at st ''target_temp'' \<and> float_at st ''target_humidity'' \<and>
     number_at st ''co2_limit'' \<and> number_at st ''min_airflow'' \<and>
     flag_at st ''recuperator_enabled''"

section \<open>Auxiliary facts\<close>

text \<open>Rounding: integers are fixed, the order is kept, the sign is carried through.\<close>

lemma round_half_even_of_int: "round_half_even (of_int n) = n"
  by (simp add: round_half_even_def)

lemma round_half_even_cases:
  "round_half_even m = \<lfloor>m\<rfloor> \<or> round_half_even m = \<lfloor>m\<rfloor> + 1"
  by (simp add: round_half_even_def Let_def)

lemma round_half_even_mono:
  assumes "a \<le> b"
  shows "round_half_even a \<le> round_half_even b"
proof (cases "\<lfloor>a\<rfloor> = \<lfloor>b\<rfloor>")
  case True
  with assms show ?thesis
    by (auto simp: round_half_even_def Let_def)
next
  case False
  with assms have "\<lfloor>a\<rfloor> + 1 \<le> \<lfloor>b\<rfloor>"
    using floor_mono [of a b] by linarith
  moreover have "round_half_even a \<le> \<lfloor>a\<rfloor> + 1"
    using round_half_even_cases [of a] by linarith
  moreover have "\<lfloor>b\<rfloor> \<le> round_half_even b"
    using round_half_even_cases [of b] by linarith
  ultimately show ?thesis by linarith
qed

lemma round_half_even_minus: "round_half_even (- m) = - round_half_even m"
proof (cases "m \<in> \<int>")
  case True
  then obtain n where "m = of_int n" by (auto elim: Ints_cases)
  then show ?thesis
    using round_half_even_of_int [of "- n"] round_half_even_of_int [of n] by simp
next
  case False
  then have "of_int \<lfloor>m\<rfloor> \<noteq> m"
    by (metis Ints_of_int)
  then have fl: "\<lfloor>- m\<rfloor> = - \<lfloor>m\<rfloor> - 1"
    by (simp add: floor_minus ceiling_altdef)
  show ?thesis
    unfolding round_half_even_def Let_def fl
    by (auto simp: algebra_simps)
qed

lemma ulp_exponent_minus: "ulp_exponent (- x) = ulp_exponent x"
  by (simp add: ulp_exponent_def)

lemma float_round_minus: "float_round (- x) = - float_round x"
  by (simp add: float_round_def ulp_exponent_minus round_half_even_minus)

lemma float_round_eval:
  fixes e :: int
  assumes "2 powr of_int e \<le> \<bar>x\<bar>" and "\<bar>x\<bar> < 2 powr of_int (e + 1)" and "- 1022 \<le> e"
  shows "float_round x =
           of_int (round_half_even (x / 2 powr of_int (e - 52))) * 2 powr of_int (e - 52)"
proof -
  have "0 < \<bar>x\<bar>" using assms(1) by (smt (verit) powr_gt_zero)
  then have "\<lfloor>log 2 \<bar>x\<bar>\<rfloor> = e"
    using assms(1,2) floor_log_eq_powr_iff [of "\<bar>x\<bar>" 2 e] by simp
  then have "ulp_exponent x = e - 52"
    using assms(3) by (simp add: ulp_exponent_def)
  moreover have "x \<noteq> 0" using \<open>0 < \<bar>x\<bar>\<close> by simp
  ultimately show ?thesis by (simp add: float_round_def)
qed


lemma float_round_eval_small:
  fixes e :: int
  assumes "2 powr of_int e \<le> \<bar>x\<bar>" and "\<bar>x\<bar> < 2 powr of_int (e + 1)" and "- 1022 \<le> e"
    and "e \<le> 52"
  shows "float_round x = of_int (round_half_even (x * 2 ^ nat (52 - e))) / 2 ^ nat (52 - e)"
proof -
  have "(2::real) powr of_int (e - 52) = 1 / 2 ^ nat (52 - e)"
    using assms(4) powr_int [of 2 "e - 52"] by (cases "e = 52") auto
  then show ?thesis
    using float_round_eval [OF assms(1-3)] by simp
qed


lemma float_round_le_grid:
  assumes "x \<noteq> 0" and "x \<le> of_int n * 2 powr of_int (ulp_exponent x)"
  shows "float_round x \<le> of_int n * 2 powr of_int (ulp_exponent x)"
proof -
  let ?q = "2 powr of_int (ulp_exponent x) :: real"
  have q: "0 < ?q" by simp
  from assms(2) have "x / ?q \<le> of_int n"
    using q by (simp add: pos_divide_le_eq)
  then have "round_half_even (x / ?q) \<le> n"
    using round_half_even_mono [of "x / ?q" "of_int n"] by (simp add: round_half_even_of_int)
  then have "of_int (round_half_even (x / ?q)) * ?q \<le> of_int n * ?q"
    using q by (simp add: mult_right_mono)
  with assms(1) show ?thesis by (simp add: float_round_def)
qed

lemma float_round_ge_grid:
  assumes "x \<noteq> 0" and "of_int n * 2 powr of_int (ulp_exponent x) \<le> x"
  shows "of_int n * 2 powr of_int (ulp_exponent x) \<le> float_round x"
proof -
  let ?q = "2 powr of_int (ulp_exponent x) :: real"
  have q: "0 < ?q" by simp
  from assms(2) have "of_int n \<le> x / ?q"
    using q by (simp add: pos_le_divide_eq)
  then have "n \<le> round_half_even (x / ?q)"
    using round_half_even_mono [of "of_int n" "x / ?q"] by (simp add: round_half_even_of_int)
  then have "of_int n * ?q \<le> of_int (round_half_even (x / ?q)) * ?q"
    using q by (simp add: mult_right_mono)
  with assms(1) show ?thesis by (simp add: float_round_def)
qed

lemma float_round_nonneg: "0 \<le> x \<Longrightarrow> 0 \<le> float_round x"
  using float_round_ge_grid [of x 0] by (cases "x = 0") (simp_all add: float_round_def)

lemma grid52: "(of_int (2 ^ 52) :: real) * 2 powr of_int (b - 52) = 2 powr of_int b"
proof -
  have "(2::real) powr of_int b = 2 powr (of_int (b - 52) + 52)" by simp
  also have "\<dots> = 2 powr of_int (b - 52) * 2 powr 52" by (simp only: powr_add)
  finally show ?thesis by simp
qed

lemma grid53: "(of_int (2 ^ 53) :: real) * 2 powr of_int (b - 52) = 2 powr of_int (b + 1)"
proof -
  have "(2::real) powr of_int (b + 1) = 2 powr (of_int (b - 52) + 53)"
    by (simp add: add.commute)
  also have "\<dots> = 2 powr of_int (b - 52) * 2 powr 53" by (simp only: powr_add)
  finally show ?thesis by simp
qed

lemma float_round_mono_pos:
  assumes "0 < x" and "x \<le> y"
  shows "float_round x \<le> float_round y"
proof -
  let ?bx = "max \<lfloor>log 2 x\<rfloor> (- 1022)" and ?by = "max \<lfloor>log 2 y\<rfloor> (- 1022)"
  have y: "0 < y" using assms by simp
  have ux: "ulp_exponent x = ?bx - 52" and uy: "ulp_exponent y = ?by - 52"
    using assms y by (simp_all add: ulp_exponent_def)
  have "log 2 x \<le> log 2 y" using assms by simp
  then have le: "?bx \<le> ?by" using floor_mono [of "log 2 x" "log 2 y"] by linarith
  show ?thesis
  proof (cases "?bx = ?by")
    case True
    then have u: "ulp_exponent x = ulp_exponent y" using ux uy by simp
    let ?q = "2 powr of_int (ulp_exponent y) :: real"
    have "x / ?q \<le> y / ?q" using assms(2) by (simp add: divide_right_mono)
    then have "round_half_even (x / ?q) \<le> round_half_even (y / ?q)"
      by (rule round_half_even_mono)
    then have "of_int (round_half_even (x / ?q)) * ?q \<le> of_int (round_half_even (y / ?q)) * ?q"
      by (simp add: mult_right_mono)
    then show ?thesis using assms y u by (simp add: float_round_def)
  next
    case False
    with le have lt: "?bx + 1 \<le> ?by" by linarith
    then have byl: "?by = \<lfloor>log 2 y\<rfloor>" by linarith
    have "2 powr of_int ?by \<le> y"
      using floor_log_eq_powr_iff [of y 2 "\<lfloor>log 2 y\<rfloor>"] y byl by simp
    then have "of_int (2 ^ 52) * 2 powr of_int (ulp_exponent y) \<le> y"
      unfolding uy grid52 .
    then have "of_int (2 ^ 52) * 2 powr of_int (ulp_exponent y) \<le> float_round y"
      using y float_round_ge_grid [of y "2 ^ 52"] by simp
    then have lower: "2 powr of_int ?by \<le> float_round y"
      unfolding uy grid52 .
    have "x < 2 powr of_int (\<lfloor>log 2 x\<rfloor> + 1)"
      using floor_log_eq_powr_iff [of x 2 "\<lfloor>log 2 x\<rfloor>"] assms(1) by simp
    also have "\<dots> \<le> 2 powr of_int (?bx + 1)"
      by (simp add: powr_mono)
    finally have "x \<le> 2 powr of_int (?bx + 1)" by simp
    then have "x \<le> of_int (2 ^ 53) * 2 powr of_int (ulp_exponent x)"
      unfolding ux grid53 .
    then have "float_round x \<le> of_int (2 ^ 53) * 2 powr of_int (ulp_exponent x)"
      using assms(1) float_round_le_grid [of x "2 ^ 53"] by simp
    then have "float_round x \<le> 2 powr of_int (?bx + 1)"
      unfolding ux grid53 .
    also have "\<dots> \<le> 2 powr of_int ?by"
      using lt by (simp add: powr_mono del: of_int_add)
    finally show ?thesis using lower by linarith
  qed
qed

lemma float_round_mono:
  assumes "x \<le> y"
  shows "float_round x \<le> float_round y"
proof -
  consider "0 < x" | "x = 0" | "x < 0" "y < 0" | "x < 0" "0 \<le> y" by linarith
  then show ?thesis
  proof cases
    case 1
    then show ?thesis using assms by (rule float_round_mono_pos)
  next
    case 2
    then show ?thesis using assms float_round_nonneg [of y] by (simp add: float_round_def)
  next
    case 3
    then have "float_round (- y) \<le> float_round (- x)"
      using assms float_round_mono_pos [of "- y" "- x"] by simp
    then show ?thesis by (simp add: float_round_minus)
  next
    case 4
    then have "0 \<le> float_round (- x)" using float_round_nonneg [of "- x"] by simp
    then have "float_round x \<le> 0" by (simp add: float_round_minus)
    then show ?thesis using float_round_nonneg [of y] 4 by linarith
  qed
qed

lemma float_add_mono: "a \<le> b \<Longrightarrow> float_add t a \<le> float_add t b"
  by (simp add: float_add_def float_round_mono)

lemma float_sub_le_float_add: "0 \<le> a \<Longrightarrow> 0 \<le> b \<Longrightarrow> float_sub t a \<le> float_add t b"
  by (simp add: float_add_def float_sub_def float_round_mono)

text \<open>Numbers that are floats are left as they are.\<close>

lemma float_exact:
  "float_sub 22 1 = 21" "float_add 22 (1 / 2) = 45 / 2" "float_add 22 3 = 25"
  "float_sub 50 5 = 45" "float_add 50 3 = 53"
  using float_round_eval_small [of 4 21] float_round_eval_small [of 4 "45 / 2"]
    float_round_eval_small [of 4 25] float_round_eval_small [of 5 45]
    float_round_eval_small [of 5 53]
  by (simp_all add: float_add_def float_sub_def round_half_even_def)

text \<open>Sums that are not floats are rounded: \<^verbatim>\<open>15.1 + 3.0\<close> is \<^verbatim>\<open>18.1\<close> and \<^verbatim>\<open>31.7 + 0.5\<close> is
  \<^verbatim>\<open>32.2\<close>, each float written as the fraction it denotes.\<close>

lemma float_add_rounds:
  "float_add (8500544296661811 / 562949953421312) 3 = 2547348539231437 / 140737488355328"
  "float_add (8922756761727795 / 281474976710656) (1 / 2) = 2265873562520781 / 70368744177664"
  "float_sub (8922756761727795 / 281474976710656) 1 = 8641281785017139 / 281474976710656"
  using float_round_eval_small [of 4 "8500544296661811 / 562949953421312 + 3"]
    float_round_eval_small [of 5 "8922756761727795 / 281474976710656 + 1 / 2"]
    float_round_eval_small [of 4 "8922756761727795 / 281474976710656 - 1"]
  by (simp_all add: float_add_def float_sub_def round_half_even_def)

text \<open>An int beyond the range of a float cannot be converted.\<close>

lemma float_round_2_1024: "float_round (2 ^ 1024) = 2 ^ 1024"
  using float_round_eval [of 1024 "2 ^ 1024"] by (simp add: round_half_even_def)

lemma float_of_int_overflow:
  assumes "2 ^ 1024 \<le> \<bar>n\<bar>"
  shows "float_of_int n = Inl OverflowError"
proof -
  have "(2::real) ^ 1024 \<le> \<bar>of_int n\<bar>"
    using assms by (metis of_int_abs of_int_le_iff of_int_numeral of_int_power)
  then have "float_round (2 ^ 1024) \<le> float_round \<bar>of_int n\<bar>"
    by (rule float_round_mono)
  moreover have "float_round \<bar>of_int n :: real\<bar> = \<bar>float_round (of_int n)\<bar>"
    using float_round_nonneg [of "of_int n"] float_round_nonneg [of "- of_int n"]
    by (cases "(0::real) \<le> of_int n") (simp_all add: float_round_minus abs_if)
  ultimately have "2 ^ 1024 \<le> \<bar>float_round (of_int n)\<bar>"
    by (simp only: float_round_2_1024)
  then show ?thesis
    by (simp add: float_of_int_def Let_def)
qed

lemma control_heating_int_overflow:
  assumes "getitem (settings self) ''target_temp'' = Inr (JInt n)" and "2 ^ 1024 \<le> \<bar>n\<bar>"
  shows "control_heating temp self = Inl OverflowError"
  using assms by (simp add: control_heating_def py_sub_def float_of_int_overflow)

lemma control_cooling_int_overflow:
  assumes "getitem (settings self) ''target_temp'' = Inr (JInt n)" and "2 ^ 1024 \<le> \<bar>n\<bar>"
  shows "control_cooling temp self = Inl OverflowError"
  using assms by (simp add: control_cooling_def py_add_def float_of_int_overflow)

lemma valid_settings_int_in_range:
  assumes "getitem st ''target_temp'' = Inr (JInt n)" and "2 ^ 1024 \<le> \<bar>n\<bar>"
  shows "\<not> valid_settings st"
  using assms by (simp add: valid_settings_def float_at_def float_of_int_overflow)

text \<open>Merging a patch: the lookup of the result, and one entry per key.\<close>

lemma map_of_fold_update:
  "map_of (fold (\<lambda>(k, v). AList.update k v) data d) = map_of d ++ map_of (rev data)"
proof (induction data arbitrary: d)
  case Nil
  show ?case by simp
next
  case (Cons p data)
  obtain k v where p: "p = (k, v)" by (cases p)
  show ?case
  proof -
    have "map_of (fold (\<lambda>(k, v). AList.update k v) (p # data) d) =
            map_of (AList.update k v d) ++ map_of (rev data)"
      by (simp add: p Cons.IH)
    also have "\<dots> = (map_of d)(k \<mapsto> v) ++ map_of (rev data)"
      by (simp only: update_conv')
    also have "\<dots> = map_of d ++ map_of (rev (p # data))"
      by (rule ext) (simp add: p map_add_def split: option.splits)
    finally show ?thesis .
  qed
qed

lemma map_of_rev_distinct:
  "distinct (map fst data) \<Longrightarrow> map_of (rev data) = map_of data"
  by (rule map_of_inject_set [THEN iffD2]) (simp_all add: distinct_rev rev_map [symmetric])

lemma map_of_dict_merge:
  "distinct (map fst data) \<Longrightarrow> map_of (dict_merge d data) = map_of d ++ map_of data"
  by (simp add: dict_merge_def map_of_fold_update map_of_rev_distinct)

lemma distinct_dict_merge:
  "distinct (map fst d) \<Longrightarrow> distinct (map fst (dict_merge d data))"
  unfolding dict_merge_def
  by (induction data arbitrary: d) (auto simp: distinct_update)

text \<open>The rules leave the settings alone, and on a configuration of the data model none of them raises.\<close>

lemma control_heating_settings:
  "control_heating t s = Inr s' \<Longrightarrow> settings s' = settings s"
  by (auto simp: control_heating_def split: sum.splits if_splits)

lemma control_cooling_settings:
  "control_cooling t s = Inr s' \<Longrightarrow> settings s' = settings s"
  by (auto simp: control_cooling_def split: sum.splits if_splits)

lemma control_humidifier_settings:
  "control_humidifier h s = Inr s' \<Longrightarrow> settings s' = settings s"
  by (auto simp: control_humidifier_def split: sum.splits if_splits)

lemma control_fan_settings:
  "control_fan c a s = Inr s' \<Longrightarrow> settings s' = settings s"
  by (auto simp: control_fan_def split: sum.splits if_splits)

lemma number_atD:
  "number_at st k \<Longrightarrow> \<exists>v x. getitem st k = Inr v \<and> py_num v = Some x"
  by (auto simp: number_at_def split: sum.splits)

lemma float_atD:
  "float_at st k \<Longrightarrow> \<exists>v x. getitem st k = Inr v \<and> py_float v = Inr x"
  by (auto simp: float_at_def split: sum.splits)

lemma control_heating_total:
  "float_at (settings s) ''target_temp'' \<Longrightarrow> \<exists>s'. control_heating t s = Inr s'"
  by (auto simp: control_heating_def py_sub_def py_add_def dest!: float_atD)

lemma control_cooling_total:
  "float_at (settings s) ''target_temp'' \<Longrightarrow> \<exists>s'. control_cooling t s = Inr s'"
  by (auto simp: control_cooling_def py_add_def dest!: float_atD)

lemma control_humidifier_total:
  "float_at (settings s) ''target_humidity'' \<Longrightarrow> \<exists>s'. control_humidifier h s = Inr s'"
  by (auto simp: control_humidifier_def py_sub_def py_add_def dest!: float_atD)

lemma control_fan_total:
  "number_at (settings s) ''co2_limit'' \<Longrightarrow> number_at (settings s) ''min_airflow'' \<Longrightarrow>
     \<exists>s'. control_fan c a s = Inr s'"
  by (auto simp: control_fan_def py_gt_def py_lt_def dest!: number_atD)

lemma control_recuperator_total:
  "flag_at (settings s) ''recuperator_enabled'' \<Longrightarrow> \<exists>s'. control_recuperator t s = Inr s'"
  by (auto simp: control_recuperator_def flag_at_def split: sum.splits json.splits)

text \<open>The cooling rule runs after the heating rule on the same temperature; the later rules touch neither field.\<close>

lemma heating_then_cooling:
  assumes "control_heating temp s = Inr s1" and "control_cooling temp s1 = Inr s2"
  shows "\<not> (heating (state s2) \<and> cooling (state s2))"
proof -
  from assms(1) obtain v t where v: "getitem (settings s) ''target_temp'' = Inr v"
    and t: "py_float v = Inr t"
    by (auto simp: control_heating_def py_sub_def split: sum.splits)
  have st: "settings s1 = settings s"
    using assms(1) by (rule control_heating_settings)
  have lo: "float_sub t 1.0 \<le> float_add t 3.0" and hi: "float_add t 0.5 \<le> float_add t 3.0"
    by (simp_all add: float_sub_le_float_add float_add_mono)
  show ?thesis
  proof
    assume hc: "heating (state s2) \<and> cooling (state s2)"
    from assms(2) v t st have s2: "s2 = s1\<lparr>state := (state s1)\<lparr>cooling := (temp > float_add t 3.0)\<rparr>\<rparr>"
      by (auto simp: control_cooling_def py_add_def split: if_splits)
    with hc have above: "temp > float_add t 3.0" and h1: "heating (state s1)" by simp_all
    from above lo hi have "\<not> temp < float_sub t 1.0" and "temp > float_add t 0.5" by linarith+
    with assms(1) v t have "s1 = s\<lparr>state := (state s)\<lparr>heating := False\<rparr>\<rparr>"
      by (simp add: control_heating_def py_sub_def py_add_def)
    with h1 show False by simp
  qed
qed

lemma humidifier_keeps:
  "control_humidifier h s = Inr s' \<Longrightarrow>
     heating (state s') = heating (state s) \<and> cooling (state s') = cooling (state s)"
  by (auto simp: control_humidifier_def split: sum.splits if_splits)

lemma fan_keeps:
  "control_fan c a s = Inr s' \<Longrightarrow>
     heating (state s') = heating (state s) \<and> cooling (state s') = cooling (state s)"
  by (auto simp: control_fan_def split: sum.splits if_splits)

lemma recuperator_keeps:
  "control_recuperator t s = Inr s' \<Longrightarrow>
     heating (state s') = heating (state s) \<and> cooling (state s') = cooling (state s)"
  by (auto simp: control_recuperator_def split: sum.splits if_splits)

lemma update_system_None:
  assumes "update_system draw self = (None, s')"
  obtains s1 s2 t where "control_heating t (self\<lparr>sensor_data := read_sensors draw self\<rparr>) = Inr s1"
    and "control_cooling t s1 = Inr s2"
    and "heating (state s') = heating (state s2)" and "cooling (state s') = cooling (state s2)"
  using assms
  by (auto simp: update_system_def Let_def split: sum.splits
           dest!: humidifier_keeps fan_keeps recuperator_keeps)

lemma update_system_completes:
  assumes "valid_settings (settings self)"
  shows "fst (update_system draw self) = None"
proof -
  let ?s0 = "self\<lparr>sensor_data := read_sensors draw self\<rparr>"
  let ?t = "temperature (sensor_data ?s0)"
  from assms have v0: "valid_settings (settings ?s0)" by simp
  then obtain s1 where s1: "control_heating ?t ?s0 = Inr s1"
    using control_heating_total [of ?s0 ?t] by (auto simp: valid_settings_def)
  have v1: "valid_settings (settings s1)"
    using v0 control_heating_settings [OF s1] by simp
  then obtain s2 where s2: "control_cooling ?t s1 = Inr s2"
    using control_cooling_total [of s1 ?t] by (auto simp: valid_settings_def)
  have v2: "valid_settings (settings s2)"
    using v1 control_cooling_settings [OF s2] by simp
  then obtain s3 where s3: "control_humidifier (humidity (sensor_data ?s0)) s2 = Inr s3"
    using control_humidifier_total [of s2] by (auto simp: valid_settings_def)
  have v3: "valid_settings (settings s3)"
    using v2 control_humidifier_settings [OF s3] by simp
  then obtain s4 where s4: "control_fan (co2 (sensor_data ?s0)) (airflow (sensor_data ?s0)) s3 = Inr s4"
    using control_fan_total [of s3] by (auto simp: valid_settings_def)
  have v4: "valid_settings (settings s4)"
    using v3 control_fan_settings [OF s4] by simp
  then obtain s5 where s5: "control_recuperator ?t s4 = Inr s5"
    using control_recuperator_total [of s4 ?t] by (auto simp: valid_settings_def)
  show ?thesis
    using s1 s2 s3 s4 s5 by (simp add: update_system_def Let_def)
qed

section \<open>The claims\<close>

text \<open>
  Claim C1, as the code has it. When the settings file is absent, \<^verbatim>\<open>load_settings\<close>
  returns the default configuration (22.0, 50.0, 800, 30.0, true) and raises nothing.
\<close>

theorem load_settings_absent:
  "load_settings (d\<lparr>settings_json := Absent\<rparr>) =
     Inr (JObject [(''target_temp'', JFloat 22.0), (''target_humidity'', JFloat 50.0),
                   (''co2_limit'', JInt 800), (''min_airflow'', JFloat 30.0),
                   (''recuperator_enabled'', JBool True)])"
  by (simp add: load_settings_def default_settings_def)

text \<open>
  Claim C1 as stated asks for the defaults when the file cannot be parsed. On a file
  whose text is not JSON, where \<^verbatim>\<open>json.load\<close> raises JSONDecodeError, \<^verbatim>\<open>load_settings\<close>
  raises that error and returns nothing.
\<close>

theorem load_settings_malformed_raises:
  "load_settings \<lparr>settings_json = Unreadable JSONDecodeError, writable = True\<rparr> =
     Inl JSONDecodeError
   \<and> load_settings \<lparr>settings_json = Unreadable JSONDecodeError, writable = True\<rparr> \<noteq>
     Inr default_settings"
  by (simp add: load_settings_def)

text \<open>
  Claim C2, as the code has it. For a configuration that is a dict and a patch mapping,
  the handler merges every key of the patch into the configuration, whether it is one of
  the five settings or not: a key of the patch takes the value of the patch, every other
  key keeps its prior value. When the storage can be written, the merged configuration
  is what is persisted and the response is the acknowledgement.
\<close>

theorem update_settings_merges_all:
  assumes "settings self = JObject cfg" and "distinct (map fst data)"
  shows "settings (fst (snd (update_settings data self d))) = JObject (dict_merge cfg data)
       \<and> map_of (dict_merge cfg data) = map_of cfg ++ map_of data
       \<and> (writable d \<longrightarrow>
            update_settings data self d =
              (Inr (JObject [(''status'', JString ''ok'')]),
               self\<lparr>settings := JObject (dict_merge cfg data)\<rparr>,
               d\<lparr>settings_json := Document (JObject (dict_merge cfg data))\<rparr>))"
  using assms
  by (simp add: update_settings_def save_settings_def map_of_dict_merge Let_def)

text \<open>The theorem at concrete inputs, on the default configuration.\<close>

theorem update_settings_merges_all_witness:
  "distinct (map fst [(''co2_limit'', JInt 1000), (''mode'', JString ''eco'')])
   \<and> update_settings [(''co2_limit'', JInt 1000), (''mode'', JString ''eco'')]
     \<lparr>settings = default_settings,
       state = \<lparr>heating = False, cooling = False, humidifier = False, fan_speed = 0, recuperator = False\<rparr>,
       sensor_data = \<lparr>temperature = 0, humidity = 0, co2 = 0, airflow = 0\<rparr>,
       running = True, simulate_sensors = True\<rparr>
     \<lparr>settings_json = Absent, writable = True\<rparr> =
     (Inr (JObject [(''status'', JString ''ok'')]),
      \<lparr>settings = JObject [(''target_temp'', JFloat 22), (''target_humidity'', JFloat 50), (''co2_limit'', JInt 1000),
               (''min_airflow'', JFloat 30), (''recuperator_enabled'', JBool True), (''mode'', JString ''eco'')],
       state = \<lparr>heating = False, cooling = False, humidifier = False, fan_speed = 0, recuperator = False\<rparr>,
       sensor_data = \<lparr>temperature = 0, humidity = 0, co2 = 0, airflow = 0\<rparr>,
       running = True, simulate_sensors = True\<rparr>,
      \<lparr>settings_json = Document (JObject [(''target_temp'', JFloat 22), (''target_humidity'', JFloat 50), (''co2_limit'', JInt 1000),
               (''min_airflow'', JFloat 30), (''recuperator_enabled'', JBool True), (''mode'', JString ''eco'')]),
       writable = True\<rparr>)"
  using update_settings_merges_all [of "\<lparr>settings = default_settings,
          state = \<lparr>heating = False, cooling = False, humidifier = False, fan_speed = 0, recuperator = False\<rparr>,
          sensor_data = \<lparr>temperature = 0, humidity = 0, co2 = 0, airflow = 0\<rparr>,
          running = True, simulate_sensors = True\<rparr>"
      "[(''target_temp'', JFloat 22), (''target_humidity'', JFloat 50), (''co2_limit'', JInt 800),
               (''min_airflow'', JFloat 30), (''recuperator_enabled'', JBool True)]"
      "[(''co2_limit'', JInt 1000), (''mode'', JString ''eco'')]"
      "\<lparr>settings_json = Absent, writable = True\<rparr>"]
  by (simp add: default_settings_def dict_merge_def)

text \<open>
  Claim C2 as stated says that a key outside the five settings is ignored. The patch
  \<^verbatim>\<open>{"mode": "eco"}\<close> against the default configuration puts the key \<^verbatim>\<open>mode\<close> into the
  configuration in memory and into the file.
\<close>

theorem update_settings_unknown_key_stored:
  "update_settings [(''mode'', JString ''eco'')]
     \<lparr>settings = default_settings,
       state = \<lparr>heating = False, cooling = False, humidifier = False, fan_speed = 0, recuperator = False\<rparr>,
       sensor_data = \<lparr>temperature = 0, humidity = 0, co2 = 0, airflow = 0\<rparr>,
       running = True, simulate_sensors = True\<rparr>
     \<lparr>settings_json = Absent, writable = True\<rparr> =
     (Inr (JObject [(''status'', JString ''ok'')]),
      \<lparr>settings = JObject [(''target_temp'', JFloat 22), (''target_humidity'', JFloat 50), (''co2_limit'', JInt 800),
               (''min_airflow'', JFloat 30), (''recuperator_enabled'', JBool True), (''mode'', JString ''eco'')],
       state = \<lparr>heating = False, cooling = False, humidifier = False, fan_speed = 0, recuperator = False\<rparr>,
       sensor_data = \<lparr>temperature = 0, humidity = 0, co2 = 0, airflow = 0\<rparr>,
       running = True, simulate_sensors = True\<rparr>,
      \<lparr>settings_json = Document (JObject [(''target_temp'', JFloat 22), (''target_humidity'', JFloat 50), (''co2_limit'', JInt 800),
               (''min_airflow'', JFloat 30), (''recuperator_enabled'', JBool True), (''mode'', JString ''eco'')]),
       writable = True\<rparr>)"
  by (simp add: update_settings_def save_settings_def default_settings_def dict_merge_def)

text \<open>
  Claim C3. With a \<^verbatim>\<open>target_temp\<close> that is a float, or an int or bool in the range of a
  float, one evaluation of the heating rule raises nothing, sets heating to true when
  the temperature is below \<^verbatim>\<open>target_temp - 1.0\<close>, to false when it is above
  \<^verbatim>\<open>target_temp + 0.5\<close>, and leaves the previous value between the two thresholds;
  nothing else of the system changes. The thresholds are the floats that the two
  expressions evaluate to.
\<close>

theorem control_heating_hysteresis:
  assumes "getitem (settings self) ''target_temp'' = Inr v" and "py_float v = Inr target"
  shows "control_heating temp self =
           Inr (self\<lparr>state := (state self)\<lparr>heating :=
                  (if temp < float_sub target 1.0 then True
                   else if temp > float_add target 0.5 then False
                   else heating (state self))\<rparr>\<rparr>)"
  using assms by (simp add: control_heating_def py_sub_def py_add_def)

text \<open>The theorem at concrete inputs. On the default configuration the thresholds
  are 21.0 and 22.5. At the temperature 32.2 with the target 31.7, each float written
  as the fraction it denotes, the sum \<^verbatim>\<open>31.7 + 0.5\<close> rounds to 32.2 and heating is held.\<close>

theorem control_heating_hysteresis_witness:
  "getitem default_settings ''target_temp'' = Inr (JFloat 22) \<and> py_float (JFloat 22) = Inr 22
   \<and> float_sub 22 1.0 = 21 \<and> float_add 22 0.5 = 22.5
   \<and> control_heating (2265873562520781 / 70368744177664)
     \<lparr>settings = JObject [(''target_temp'', JFloat (8922756761727795 / 281474976710656))],
       state = \<lparr>heating = True, cooling = False, humidifier = False, fan_speed = 0, recuperator = False\<rparr>,
       sensor_data = \<lparr>temperature = 0, humidity = 0, co2 = 0, airflow = 0\<rparr>,
       running = True, simulate_sensors = True\<rparr> =
     Inr \<lparr>settings = JObject [(''target_temp'', JFloat (8922756761727795 / 281474976710656))],
       state = \<lparr>heating = True, cooling = False, humidifier = False, fan_speed = 0, recuperator = False\<rparr>,
       sensor_data = \<lparr>temperature = 0, humidity = 0, co2 = 0, airflow = 0\<rparr>,
       running = True, simulate_sensors = True\<rparr>
   \<and> control_heating 18
     \<lparr>settings = default_settings,
       state = \<lparr>heating = False, cooling = False, humidifier = False, fan_speed = 0, recuperator = False\<rparr>,
       sensor_data = \<lparr>temperature = 0, humidity = 0, co2 = 0, airflow = 0\<rparr>,
       running = True, simulate_sensors = True\<rparr> =
     Inr \<lparr>settings = default_settings,
       state = \<lparr>heating = True, cooling = False, humidifier = False, fan_speed = 0, recuperator = False\<rparr>,
       sensor_data = \<lparr>temperature = 0, humidity = 0, co2 = 0, airflow = 0\<rparr>,
       running = True, simulate_sensors = True\<rparr>
   \<and> control_heating 26
     \<lparr>settings = default_settings,
       state = \<lparr>heating = True, cooling = False, humidifier = False, fan_speed = 0, recuperator = False\<rparr>,
       sensor_data = \<lparr>temperature = 0, humidity = 0, co2 = 0, airflow = 0\<rparr>,
       running = True, simulate_sensors = True\<rparr> =
     Inr \<lparr>settings = default_settings,
       state = \<lparr>heating = False, cooling = False, humidifier = False, fan_speed = 0, recuperator = False\<rparr>,
       sensor_data = \<lparr>temperature = 0, humidity = 0, co2 = 0, airflow = 0\<rparr>,
       running = True, simulate_sensors = True\<rparr>
   \<and> control_heating 22
     \<lparr>settings = default_settings,
       state = \<lparr>heating = True, cooling = False, humidifier = False, fan_speed = 0, recuperator = False\<rparr>,
       sensor_data = \<lparr>temperature = 0, humidity = 0, co2 = 0, airflow = 0\<rparr>,
       running = True, simulate_sensors = True\<rparr> =
     Inr \<lparr>settings = default_settings,
       state = \<lparr>heating = True, cooling = False, humidifier = False, fan_speed = 0, recuperator = False\<rparr>,
       sensor_data = \<lparr>temperature = 0, humidity = 0, co2 = 0, airflow = 0\<rparr>,
       running = True, simulate_sensors = True\<rparr>"
  using control_heating_hysteresis [of "\<lparr>settings = default_settings,
          state = \<lparr>heating = False, cooling = False, humidifier = False, fan_speed = 0, recuperator = False\<rparr>,
          sensor_data = \<lparr>temperature = 0, humidity = 0, co2 = 0, airflow = 0\<rparr>,
          running = True, simulate_sensors = True\<rparr>" "JFloat 22" 22 18]
    control_heating_hysteresis [of "\<lparr>settings = default_settings,
          state = \<lparr>heating = True, cooling = False, humidifier = False, fan_speed = 0, recuperator = False\<rparr>,
          sensor_data = \<lparr>temperature = 0, humidity = 0, co2 = 0, airflow = 0\<rparr>,
          running = True, simulate_sensors = True\<rparr>" "JFloat 22" 22 26]
    control_heating_hysteresis [of "\<lparr>settings = default_settings,
          state = \<lparr>heating = True, cooling = False, humidifier = False, fan_speed = 0, recuperator = False\<rparr>,
          sensor_data = \<lparr>temperature = 0, humidity = 0, co2 = 0, airflow = 0\<rparr>,
          running = True, simulate_sensors = True\<rparr>" "JFloat 22" 22 22]
    control_heating_hysteresis [of "\<lparr>settings = JObject [(''target_temp'', JFloat (8922756761727795 / 281474976710656))],
          state = \<lparr>heating = True, cooling = False, humidifier = False, fan_speed = 0, recuperator = False\<rparr>,
          sensor_data = \<lparr>temperature = 0, humidity = 0, co2 = 0, airflow = 0\<rparr>,
          running = True, simulate_sensors = True\<rparr>"
      "JFloat (8922756761727795 / 281474976710656)" "8922756761727795 / 281474976710656" "2265873562520781 / 70368744177664"]
  by (simp add: default_settings_def float_exact float_add_rounds)

text \<open>
  Claim C4. With a \<^verbatim>\<open>target_temp\<close> that is a float, or an int or bool in the range of a
  float, after one evaluation of the cooling rule cooling is true if and only if the
  temperature is above \<^verbatim>\<open>target_temp + 3.0\<close>, the float that the expression evaluates
  to, and the result does not depend on the previous value of cooling.
\<close>

theorem control_cooling_threshold:
  assumes "getitem (settings self) ''target_temp'' = Inr v" and "py_float v = Inr target"
  shows "control_cooling temp self =
           Inr (self\<lparr>state := (state self)\<lparr>cooling := (temp > float_add target 3.0)\<rparr>\<rparr>)
         \<and> control_cooling temp (self\<lparr>state := (state self)\<lparr>cooling := prev\<rparr>\<rparr>) =
           control_cooling temp self"
  using assms by (simp add: control_cooling_def py_add_def)

text \<open>The theorem at concrete inputs. On the default configuration the threshold is
  25.0. At the temperature 18.1 with the target 15.1, each float written as the
  fraction it denotes, the sum \<^verbatim>\<open>15.1 + 3.0\<close> rounds to 18.1 and cooling is off.\<close>

theorem control_cooling_threshold_witness:
  "getitem default_settings ''target_temp'' = Inr (JFloat 22) \<and> py_float (JFloat 22) = Inr 22
   \<and> float_add 22 3.0 = 25
   \<and> control_cooling (2547348539231437 / 140737488355328)
     \<lparr>settings = JObject [(''target_temp'', JFloat (8500544296661811 / 562949953421312))],
       state = \<lparr>heating = False, cooling = True, humidifier = False, fan_speed = 0, recuperator = False\<rparr>,
       sensor_data = \<lparr>temperature = 0, humidity = 0, co2 = 0, airflow = 0\<rparr>,
       running = True, simulate_sensors = True\<rparr> =
     Inr \<lparr>settings = JObject [(''target_temp'', JFloat (8500544296661811 / 562949953421312))],
       state = \<lparr>heating = False, cooling = False, humidifier = False, fan_speed = 0, recuperator = False\<rparr>,
       sensor_data = \<lparr>temperature = 0, humidity = 0, co2 = 0, airflow = 0\<rparr>,
       running = True, simulate_sensors = True\<rparr>
   \<and> control_cooling 26
     \<lparr>settings = default_settings,
       state = \<lparr>heating = False, cooling = False, humidifier = False, fan_speed = 0, recuperator = False\<rparr>,
       sensor_data = \<lparr>temperature = 0, humidity = 0, co2 = 0, airflow = 0\<rparr>,
       running = True, simulate_sensors = True\<rparr> =
     Inr \<lparr>settings = default_settings,
       state = \<lparr>heating = False, cooling = True, humidifier = False, fan_speed = 0, recuperator = False\<rparr>,
       sensor_data = \<lparr>temperature = 0, humidity = 0, co2 = 0, airflow = 0\<rparr>,
       running = True, simulate_sensors = True\<rparr>
   \<and> control_cooling 25
     \<lparr>settings = default_settings,
       state = \<lparr>heating = False, cooling = True, humidifier = False, fan_speed = 0, recuperator = False\<rparr>,
       sensor_data = \<lparr>temperature = 0, humidity = 0, co2 = 0, airflow = 0\<rparr>,
       running = True, simulate_sensors = True\<rparr> =
     Inr \<lparr>settings = default_settings,
       state = \<lparr>heating = False, cooling = False, humidifier = False, fan_speed = 0, recuperator = False\<rparr>,
       sensor_data = \<lparr>temperature = 0, humidity = 0, co2 = 0, airflow = 0\<rparr>,
       running = True, simulate_sensors = True\<rparr>"
  using control_cooling_threshold [of "\<lparr>settings = default_settings,
          state = \<lparr>heating = False, cooling = False, humidifier = False, fan_speed = 0, recuperator = False\<rparr>,
          sensor_data = \<lparr>temperature = 0, humidity = 0, co2 = 0, airflow = 0\<rparr>,
          running = True, simulate_sensors = True\<rparr>" "JFloat 22" 22 26 False]
    control_cooling_threshold [of "\<lparr>settings = default_settings,
          state = \<lparr>heating = False, cooling = True, humidifier = False, fan_speed = 0, recuperator = False\<rparr>,
          sensor_data = \<lparr>temperature = 0, humidity = 0, co2 = 0, airflow = 0\<rparr>,
          running = True, simulate_sensors = True\<rparr>" "JFloat 22" 22 25 True]
    control_cooling_threshold [of "\<lparr>settings = JObject [(''target_temp'', JFloat (8500544296661811 / 562949953421312))],
          state = \<lparr>heating = False, cooling = True, humidifier = False, fan_speed = 0, recuperator = False\<rparr>,
          sensor_data = \<lparr>temperature = 0, humidity = 0, co2 = 0, airflow = 0\<rparr>,
          running = True, simulate_sensors = True\<rparr>"
      "JFloat (8500544296661811 / 562949953421312)" "8500544296661811 / 562949953421312" "2547348539231437 / 140737488355328" True]
  by (simp add: default_settings_def float_exact float_add_rounds)

text \<open>
  Claim C5. With numeric \<^verbatim>\<open>co2_limit\<close> and \<^verbatim>\<open>min_airflow\<close>, after one evaluation of the
  fan rule the fan speed is 100 when \<^verbatim>\<open>co2 > co2_limit or airflow < min_airflow\<close> and 50
  otherwise, so it is never another value and it is 100 exactly in that case.
\<close>

theorem control_fan_two_levels:
  assumes "getitem (settings self) ''co2_limit'' = Inr vl" and "py_num vl = Some limit"
    and "getitem (settings self) ''min_airflow'' = Inr va" and "py_num va = Some min_af"
  shows "control_fan c a self =
           Inr (self\<lparr>state := (state self)\<lparr>fan_speed :=
                  (if c > limit \<or> a < min_af then 100 else 50)\<rparr>\<rparr>)"
  using assms by (simp add: control_fan_def py_gt_def py_lt_def)

text \<open>The theorem at concrete inputs, on the default configuration.\<close>

theorem control_fan_two_levels_witness:
  "getitem default_settings ''co2_limit'' = Inr (JInt 800) \<and> py_num (JInt 800) = Some 800
   \<and> getitem default_settings ''min_airflow'' = Inr (JFloat 30) \<and> py_num (JFloat 30) = Some 30
   \<and> control_fan 900 20
     \<lparr>settings = default_settings,
       state = \<lparr>heating = False, cooling = False, humidifier = False, fan_speed = 0, recuperator = False\<rparr>,
       sensor_data = \<lparr>temperature = 0, humidity = 0, co2 = 0, airflow = 0\<rparr>,
       running = True, simulate_sensors = True\<rparr> =
     Inr \<lparr>settings = default_settings,
       state = \<lparr>heating = False, cooling = False, humidifier = False, fan_speed = 100, recuperator = False\<rparr>,
       sensor_data = \<lparr>temperature = 0, humidity = 0, co2 = 0, airflow = 0\<rparr>,
       running = True, simulate_sensors = True\<rparr>
   \<and> control_fan 500 40
     \<lparr>settings = default_settings,
       state = \<lparr>heating = False, cooling = False, humidifier = False, fan_speed = 0, recuperator = False\<rparr>,
       sensor_data = \<lparr>temperature = 0, humidity = 0, co2 = 0, airflow = 0\<rparr>,
       running = True, simulate_sensors = True\<rparr> =
     Inr \<lparr>settings = default_settings,
       state = \<lparr>heating = False, cooling = False, humidifier = False, fan_speed = 50, recuperator = False\<rparr>,
       sensor_data = \<lparr>temperature = 0, humidity = 0, co2 = 0, airflow = 0\<rparr>,
       running = True, simulate_sensors = True\<rparr>"
  using control_fan_two_levels [of "\<lparr>settings = default_settings,
          state = \<lparr>heating = False, cooling = False, humidifier = False, fan_speed = 0, recuperator = False\<rparr>,
          sensor_data = \<lparr>temperature = 0, humidity = 0, co2 = 0, airflow = 0\<rparr>,
          running = True, simulate_sensors = True\<rparr>" "JInt 800" 800 "JFloat 30" 30 900 20]
    control_fan_two_levels [of "\<lparr>settings = default_settings,
          state = \<lparr>heating = False, cooling = False, humidifier = False, fan_speed = 0, recuperator = False\<rparr>,
          sensor_data = \<lparr>temperature = 0, humidity = 0, co2 = 0, airflow = 0\<rparr>,
          running = True, simulate_sensors = True\<rparr>" "JInt 800" 800 "JFloat 30" 30 500 40]
  by (simp add: default_settings_def)

text \<open>
  Claim C6. With a boolean \<^verbatim>\<open>recuperator_enabled\<close>, after one evaluation of the
  recuperator rule the recuperator is on if and only if the flag is true and the
  temperature is above 5.0, and the result does not depend on the previous value of the
  recuperator.
\<close>

theorem control_recuperator_fresh:
  assumes "getitem (settings self) ''recuperator_enabled'' = Inr (JBool enabled)"
  shows "control_recuperator temp self =
           Inr (self\<lparr>state := (state self)\<lparr>recuperator := (enabled \<and> temp > 5.0)\<rparr>\<rparr>)
         \<and> control_recuperator temp (self\<lparr>state := (state self)\<lparr>recuperator := prev\<rparr>\<rparr>) =
           control_recuperator temp self"
  using assms by (simp add: control_recuperator_def)

text \<open>The theorem at concrete inputs, on the default configuration.\<close>

theorem control_recuperator_fresh_witness:
  "getitem default_settings ''recuperator_enabled'' = Inr (JBool True)
   \<and> control_recuperator 18
     \<lparr>settings = default_settings,
       state = \<lparr>heating = False, cooling = False, humidifier = False, fan_speed = 0, recuperator = False\<rparr>,
       sensor_data = \<lparr>temperature = 0, humidity = 0, co2 = 0, airflow = 0\<rparr>,
       running = True, simulate_sensors = True\<rparr> =
     Inr \<lparr>settings = default_settings,
       state = \<lparr>heating = False, cooling = False, humidifier = False, fan_speed = 0, recuperator = True\<rparr>,
       sensor_data = \<lparr>temperature = 0, humidity = 0, co2 = 0, airflow = 0\<rparr>,
       running = True, simulate_sensors = True\<rparr>
   \<and> control_recuperator 4
     \<lparr>settings = default_settings,
       state = \<lparr>heating = False, cooling = False, humidifier = False, fan_speed = 0, recuperator = True\<rparr>,
       sensor_data = \<lparr>temperature = 0, humidity = 0, co2 = 0, airflow = 0\<rparr>,
       running = True, simulate_sensors = True\<rparr> =
     Inr \<lparr>settings = default_settings,
       state = \<lparr>heating = False, cooling = False, humidifier = False, fan_speed = 0, recuperator = False\<rparr>,
       sensor_data = \<lparr>temperature = 0, humidity = 0, co2 = 0, airflow = 0\<rparr>,
       running = True, simulate_sensors = True\<rparr>"
  using control_recuperator_fresh [of "\<lparr>settings = default_settings,
          state = \<lparr>heating = False, cooling = False, humidifier = False, fan_speed = 0, recuperator = False\<rparr>,
          sensor_data = \<lparr>temperature = 0, humidity = 0, co2 = 0, airflow = 0\<rparr>,
          running = True, simulate_sensors = True\<rparr>" True 18 False]
    control_recuperator_fresh [of "\<lparr>settings = default_settings,
          state = \<lparr>heating = False, cooling = False, humidifier = False, fan_speed = 0, recuperator = True\<rparr>,
          sensor_data = \<lparr>temperature = 0, humidity = 0, co2 = 0, airflow = 0\<rparr>,
          running = True, simulate_sensors = True\<rparr>" True 4 True]
  by (simp add: default_settings_def)

text \<open>
  Claim C7. Whatever the state of the actuators before, after the cleanup it is the
  all-off default; and so it is when \<^verbatim>\<open>run\<close> returns, whatever cycles ran before the stop
  and however the loop was left.
\<close>

theorem cleanup_all_off:
  "state (cleanup self) =
     \<lparr>heating = False, cooling = False, humidifier = False, fan_speed = 0, recuperator = False\<rparr>
   \<and> state (snd (run draws self)) =
     \<lparr>heating = False, cooling = False, humidifier = False, fan_speed = 0, recuperator = False\<rparr>"
  by (simp add: run_def cleanup_def SystemState_init_def split: prod.splits)

text \<open>
  Claim C8. For a configuration that is a dict and a storage that can be written, the
  empty patch leaves the system as it was, the configuration is written to the file and
  the response is the acknowledgement.
\<close>

theorem empty_patch:
  assumes "settings self = JObject cfg" and "writable d"
  shows "update_settings [] self d =
           (Inr (JObject [(''status'', JString ''ok'')]), self,
            d\<lparr>settings_json := Document (settings self)\<rparr>)"
  using assms by (simp add: update_settings_def dict_merge_def save_settings_def)

text \<open>The theorem at concrete inputs, on the default configuration.\<close>

theorem empty_patch_witness:
  "update_settings []
     \<lparr>settings = default_settings,
       state = \<lparr>heating = False, cooling = False, humidifier = False, fan_speed = 0, recuperator = False\<rparr>,
       sensor_data = \<lparr>temperature = 0, humidity = 0, co2 = 0, airflow = 0\<rparr>,
       running = True, simulate_sensors = True\<rparr>
     \<lparr>settings_json = Absent, writable = True\<rparr> =
     (Inr (JObject [(''status'', JString ''ok'')]),
      \<lparr>settings = default_settings,
       state = \<lparr>heating = False, cooling = False, humidifier = False, fan_speed = 0, recuperator = False\<rparr>,
       sensor_data = \<lparr>temperature = 0, humidity = 0, co2 = 0, airflow = 0\<rparr>,
       running = True, simulate_sensors = True\<rparr>,
      \<lparr>settings_json = Document default_settings, writable = True\<rparr>)"
  using empty_patch [of "\<lparr>settings = default_settings,
          state = \<lparr>heating = False, cooling = False, humidifier = False, fan_speed = 0, recuperator = False\<rparr>,
          sensor_data = \<lparr>temperature = 0, humidity = 0, co2 = 0, airflow = 0\<rparr>,
          running = True, simulate_sensors = True\<rparr>"
      "[(''target_temp'', JFloat 22), (''target_humidity'', JFloat 50), (''co2_limit'', JInt 800),
               (''min_airflow'', JFloat 30), (''recuperator_enabled'', JBool True)]"
      "\<lparr>settings_json = Absent, writable = True\<rparr>"]
  by (simp add: default_settings_def)

text \<open>
  Claim C9. When the storage can be written, \<^verbatim>\<open>save_settings\<close> succeeds and a
  \<^verbatim>\<open>load_settings\<close> that follows returns the configuration that was saved, whole: so it
  is equal in each of its fields.
\<close>

theorem save_load_roundtrip:
  assumes "writable d"
  shows "case save_settings self d of
           Inl e \<Rightarrow> False
         | Inr d' \<Rightarrow> load_settings d' = Inr (settings self)"
  using assms by (simp add: save_settings_def load_settings_def)

text \<open>The theorem at concrete inputs, on the default configuration.\<close>

theorem save_load_roundtrip_witness:
  "writable \<lparr>settings_json = Unreadable JSONDecodeError, writable = True\<rparr>
   \<and> save_settings
       \<lparr>settings = default_settings,
       state = \<lparr>heating = False, cooling = False, humidifier = False, fan_speed = 0, recuperator = False\<rparr>,
       sensor_data = \<lparr>temperature = 0, humidity = 0, co2 = 0, airflow = 0\<rparr>,
       running = True, simulate_sensors = True\<rparr>
       \<lparr>settings_json = Unreadable JSONDecodeError, writable = True\<rparr> =
     Inr \<lparr>settings_json = Document default_settings, writable = True\<rparr>
   \<and> load_settings \<lparr>settings_json = Document default_settings, writable = True\<rparr> =
     Inr default_settings"
  using save_load_roundtrip [of "\<lparr>settings_json = Unreadable JSONDecodeError, writable = True\<rparr>"
      "\<lparr>settings = default_settings,
          state = \<lparr>heating = False, cooling = False, humidifier = False, fan_speed = 0, recuperator = False\<rparr>,
          sensor_data = \<lparr>temperature = 0, humidity = 0, co2 = 0, airflow = 0\<rparr>,
          running = True, simulate_sensors = True\<rparr>"]
  by (simp add: save_settings_def)

text \<open>
  Claim C10. On a configuration of the data model a cycle raises nothing, and after a
  cycle that raised nothing heating and cooling are not both on, whatever the reading
  and the previous state of the actuators: rounding keeps the order of the thresholds.
\<close>

theorem heating_cooling_exclusive:
  "(valid_settings (settings self) \<longrightarrow> fst (update_system draw self) = None)
   \<and> (fst (update_system draw self) = None \<longrightarrow>
        \<not> (heating (state (snd (update_system draw self)))
           \<and> cooling (state (snd (update_system draw self)))))"
proof (intro conjI impI)
  assume "valid_settings (settings self)"
  then show "fst (update_system draw self) = None"
    by (rule update_system_completes)
next
  assume "fst (update_system draw self) = None"
  then have "update_system draw self = (None, snd (update_system draw self))"
    by (simp add: prod_eq_iff)
  then show "\<not> (heating (state (snd (update_system draw self)))
           \<and> cooling (state (snd (update_system draw self))))"
    by (rule update_system_None) (use heating_then_cooling in metis)
qed

text \<open>The theorem at concrete inputs, on the default configuration.\<close>

theorem heating_cooling_exclusive_witness:
  "valid_settings default_settings
   \<and> fst (update_system \<lparr>temperature = 26, humidity = 50, co2 = 500, airflow = 40\<rparr>
       \<lparr>settings = default_settings,
       state = \<lparr>heating = True, cooling = False, humidifier = False, fan_speed = 0, recuperator = False\<rparr>,
       sensor_data = \<lparr>temperature = 0, humidity = 0, co2 = 0, airflow = 0\<rparr>,
       running = True, simulate_sensors = True\<rparr>) = None
   \<and> \<not> (heating (state (snd (update_system \<lparr>temperature = 26, humidity = 50, co2 = 500, airflow = 40\<rparr>
       \<lparr>settings = default_settings,
       state = \<lparr>heating = True, cooling = False, humidifier = False, fan_speed = 0, recuperator = False\<rparr>,
       sensor_data = \<lparr>temperature = 0, humidity = 0, co2 = 0, airflow = 0\<rparr>,
       running = True, simulate_sensors = True\<rparr>)))
      \<and> cooling (state (snd (update_system \<lparr>temperature = 26, humidity = 50, co2 = 500, airflow = 40\<rparr>
       \<lparr>settings = default_settings,
       state = \<lparr>heating = True, cooling = False, humidifier = False, fan_speed = 0, recuperator = False\<rparr>,
       sensor_data = \<lparr>temperature = 0, humidity = 0, co2 = 0, airflow = 0\<rparr>,
       running = True, simulate_sensors = True\<rparr>))))"
  using heating_cooling_exclusive [of "\<lparr>settings = default_settings,
          state = \<lparr>heating = True, cooling = False, humidifier = False, fan_speed = 0, recuperator = False\<rparr>,
          sensor_data = \<lparr>temperature = 0, humidity = 0, co2 = 0, airflow = 0\<rparr>,
          running = True, simulate_sensors = True\<rparr>"
      "\<lparr>temperature = 26, humidity = 50, co2 = 500, airflow = 40\<rparr>"]
  by (simp add: valid_settings_def float_at_def number_at_def flag_at_def default_settings_def)

end
